theory Spec2Isabelle
  imports Main
begin

section \<open>The rdna package: python/__init__.py\<close>

text \<open>
  The package is a Python module that first executes \<^verbatim>\<open>from .rdna_py import *\<close> (the
  compiled extension, which is not part of the sources) and then defines its own
  functions. A name defined by the module after that import shadows the extension's
  export of the same name, so \<^verbatim>\<open>rdna.current_device\<close>, \<^verbatim>\<open>rdna.set_device\<close>,
  \<^verbatim>\<open>rdna.empty_cache\<close>, \<^verbatim>\<open>rdna.memory_allocated\<close>, \<^verbatim>\<open>rdna.max_memory_allocated\<close>,
  \<^verbatim>\<open>rdna.get_device_properties\<close> and \<^verbatim>\<open>rdna.is_available\<close> are the functions of
  \<^verbatim>\<open>__init__.py\<close> that are embedded below.
\<close>

subsection \<open>Python values and exceptions\<close>

text \<open>
  Python is dynamically typed: arguments and results are values of one type. Only the
  kinds of value the module handles are listed. A dict is an association list.
\<close>

datatype pyval =
    PyNone
  | PyBool bool
  | PyInt int
  | PyStr string
  | PyDict "(string \<times> pyval) list"

text \<open>
  The exceptions of the model are subclasses of Python's \<^verbatim>\<open>Exception\<close>; these are the
  ones an \<^verbatim>\<open>except Exception\<close> clause catches.
\<close>

datatype py_error =
    ValueError
  | IndexError
  | AttributeError
  | NameError
  | RuntimeError
  | MemoryError

text \<open>Truth value of an object, as \<^verbatim>\<open>if\<close> and the \<^verbatim>\<open>with\<close> statement test it.\<close>

fun truthy :: "pyval \<Rightarrow> bool" where
  "truthy PyNone = False"
| "truthy (PyBool b) = b"
| "truthy (PyInt n) = (n \<noteq> 0)"
| "truthy (PyStr s) = (s \<noteq> [])"
| "truthy (PyDict kvs) = (kvs \<noteq> [])"

text \<open>Reading an entry of a dict by key; \<open>None\<close> when the key is absent or the value is no dict.\<close>

fun dict_get :: "pyval \<Rightarrow> string \<Rightarrow> pyval option" where
  "dict_get (PyDict kvs) k = map_of kvs k"
| "dict_get v k = None"

subsection \<open>The state of the process\<close>

text \<open>
  Modelled from the spec: the compiled extension \<^verbatim>\<open>rdna_py\<close> is missing from the sources.
  Of its state the model keeps the number of accelerators found by discovery (the
  spec's \<^verbatim>\<open>deviceCount\<close>) and the per-device \<^verbatim>\<open>cachedBytes\<close> statistic of the spec's
  \<^verbatim>\<open>AllocatorStats\<close>.
\<close>

record rdna_py =
  discovered :: nat
  cached_bytes :: "nat \<Rightarrow> nat"

text \<open>
  A run is observed through the calls of \<^verbatim>\<open>set_device\<close> it makes: each call, with its
  argument, is an event.
\<close>

datatype event = Set_device_call pyval

text \<open>
  The state of the process as the module sees it: the extension's state, the module
  global \<^verbatim>\<open>_available\<close>, and the interpreter's limit on the number of digits of an
  integer string (\<^verbatim>\<open>sys.get_int_max_str_digits()\<close>, \<open>0\<close> when the limit is off). The
  last field, \<open>trace\<close>, is no variable of the program: it lists the events of the run so
  far, oldest first. No function of the module reads it; it is there so that a call
  that changes no variable, such as \<^verbatim>\<open>set_device\<close>, can still be told from no call.
\<close>

record rdna =
  native :: rdna_py
  available :: bool
  int_max_str_digits :: nat
  trace :: "event list"

text \<open>
  A call takes the state and returns either an exception or a value, with the state
  after the call.
\<close>

type_synonym 'a py = "rdna \<Rightarrow> (py_error + 'a) \<times> rdna"

definition py_return :: "'a \<Rightarrow> 'a py" where
  "py_return v st = (Inr v, st)"

definition py_raise :: "py_error \<Rightarrow> 'a py" where
  "py_raise e st = (Inl e, st)"

definition py_bind :: "'a py \<Rightarrow> ('a \<Rightarrow> 'b py) \<Rightarrow> 'b py" where
  "py_bind m f st = (case m st of (Inl e, st1) \<Rightarrow> (Inl e, st1) | (Inr v, st1) \<Rightarrow> f v st1)"

subsection \<open>String operations of the constructors\<close>

text \<open>
  A \<open>string\<close> is a list of characters with code points below 256. \<^verbatim>\<open>s.startswith(p)\<close>,
  \<^verbatim>\<open>c in s\<close> for a one-character \<open>c\<close>, \<^verbatim>\<open>s.split(c)\<close> and indexing of a list:
\<close>

definition startswith :: "string \<Rightarrow> string \<Rightarrow> bool" where
  "startswith s p = (take (length p) s = p)"

definition contains :: "string \<Rightarrow> char \<Rightarrow> bool" where
  "contains s c = (c \<in> set s)"

fun py_split :: "char \<Rightarrow> string \<Rightarrow> string list" where
  "py_split sep [] = [[]]"
| "py_split sep (c # cs) =
     (if c = sep then [] # py_split sep cs
      else (case py_split sep cs of [] \<Rightarrow> [[c]] | p # ps \<Rightarrow> (c # p) # ps))"

definition py_index :: "'a list \<Rightarrow> nat \<Rightarrow> py_error + 'a" where
  "py_index xs i = (if i < length xs then Inr (xs ! i) else Inl IndexError)"

text \<open>
  The builtin \<^verbatim>\<open>int(s)\<close> on a string, base 10. Whitespace around the number is dropped
  (the six ASCII whitespace characters, and the two Unicode spaces below 256, U+0085
  and U+00A0); then comes an optional sign, then decimal digits, where single
  underscores may stand between digits (\<open>scan_digits\<close> carries the previous character,
  as the interpreter's scanning loop does). More digits than the interpreter's limit,
  when the limit is on, is a \<^verbatim>\<open>ValueError\<close> like every other failure.
\<close>

definition py_isspace :: "char \<Rightarrow> bool" where
  "py_isspace c = (c \<in> set [CHR 0x09, CHR 0x0A, CHR 0x0B, CHR 0x0C, CHR 0x0D, CHR 0x20,
                              CHR 0x85, CHR 0xA0])"

definition digit_val :: "char \<Rightarrow> nat option" where
  "digit_val c =
     (let n = (of_char c :: nat) in if 48 \<le> n \<and> n \<le> 57 then Some (n - 48) else None)"

fun scan_digits :: "char \<Rightarrow> nat \<Rightarrow> string \<Rightarrow> nat option" where
  "scan_digits prev acc [] = (if prev = CHR ''_'' then None else Some acc)"
| "scan_digits prev acc (c # cs) =
     (if c = CHR ''_'' then (if prev = CHR ''_'' then None else scan_digits c acc cs)
      else (case digit_val c of
              None \<Rightarrow> None
            | Some d \<Rightarrow> scan_digits c (10 * acc + d) cs))"

definition py_strip :: "string \<Rightarrow> string" where
  "py_strip s = rev (dropWhile py_isspace (rev (dropWhile py_isspace s)))"

definition parse_magnitude :: "nat \<Rightarrow> string \<Rightarrow> nat option" where
  "parse_magnitude lim body =
     (case body of
        [] \<Rightarrow> None
      | c # cs \<Rightarrow>
          (if c = CHR ''_'' then None
           else (case scan_digits (CHR 0x00) 0 body of
                   None \<Rightarrow> None
                 | Some n \<Rightarrow>
                     (if 0 < lim \<and> lim < length (filter (\<lambda>x. x \<noteq> CHR ''_'') body)
                      then None else Some n))))"

definition py_int :: "nat \<Rightarrow> string \<Rightarrow> py_error + int" where
  "py_int lim s =
     (case py_strip s of
        [] \<Rightarrow> Inl ValueError
      | c # cs \<Rightarrow>
          (if c = CHR ''-'' then
             (case parse_magnitude lim cs of None \<Rightarrow> Inl ValueError | Some n \<Rightarrow> Inr (- int n))
           else if c = CHR ''+'' then
             (case parse_magnitude lim cs of None \<Rightarrow> Inl ValueError | Some n \<Rightarrow> Inr (int n))
           else
             (case parse_magnitude lim (c # cs) of None \<Rightarrow> Inl ValueError | Some n \<Rightarrow> Inr (int n))))"

subsection \<open>Module initialisation and availability\<close>

text \<open>
  Modelled from the spec: \<^verbatim>\<open>is_available\<close> and \<^verbatim>\<open>device_count\<close> of the missing extension
  \<^verbatim>\<open>rdna_py\<close>. The first is true iff at least one accelerator was discovered and never
  throws; the second is the number of discovered devices.
\<close>

definition rdna_py_is_available :: "rdna_py \<Rightarrow> py_error + bool" where
  "rdna_py_is_available n = Inr (0 < discovered n)"

definition rdna_py_device_count :: "rdna_py \<Rightarrow> nat" where
  "rdna_py_device_count n = discovered n"

text \<open>
  \<^verbatim>\<open>_check_availability()\<close> runs once, when the module is imported. At that moment the
  name \<^verbatim>\<open>is_available\<close> still refers to the extension's function, and \<^verbatim>\<open>initialize\<close> is the
  extension's too. Their outcomes are parameters: \<open>probe\<close> is what the extension's
  \<^verbatim>\<open>is_available()\<close> does, \<open>init\<close> what its \<^verbatim>\<open>initialize()\<close> does when it is called. The
  warnings the function prints are not part of the model.
\<close>

definition check_availability :: "(py_error + bool) \<Rightarrow> (py_error + unit) \<Rightarrow> bool" where
  "check_availability probe init =
     (case probe of
        Inl e \<Rightarrow> False
      | Inr b \<Rightarrow>
          (if b then (case init of Inl e \<Rightarrow> False | Inr u \<Rightarrow> True)
           else False))"

text \<open>
  The state after \<^verbatim>\<open>import rdna\<close>, for an extension in state \<open>n\<close> whose \<^verbatim>\<open>initialize()\<close>
  has the outcome \<open>init\<close>, in an interpreter with digit limit \<open>lim\<close>. No call of
  \<^verbatim>\<open>set_device\<close> has happened yet.
\<close>

definition import_rdna :: "rdna_py \<Rightarrow> (py_error + unit) \<Rightarrow> nat \<Rightarrow> rdna" where
  "import_rdna n init lim =
     \<lparr> native = n,
       available = check_availability (rdna_py_is_available n) init,
       int_max_str_digits = lim,
       trace = [] \<rparr>"

definition is_available :: "pyval py" where
  "is_available st = py_return (PyBool (available st)) st"

definition device_count :: "pyval py" where
  "device_count st = py_return (PyInt (int (rdna_py_device_count (native st)))) st"

subsection \<open>Current device\<close>

definition current_device :: "pyval py" where
  "current_device = py_return (PyInt 0)"

text \<open>
  The body of \<^verbatim>\<open>set_device\<close> is \<^verbatim>\<open>pass\<close>: the call returns \<^verbatim>\<open>None\<close> and changes no variable of
  the program. That the call happened is an event of the run.
\<close>

definition set_device :: "pyval \<Rightarrow> pyval py" where
  "set_device dev_id st = py_return PyNone (st\<lparr> trace := trace st @ [Set_device_call dev_id] \<rparr>)"

subsection \<open>The context managers\<close>

text \<open>
  An object of class \<^verbatim>\<open>device\<close> or \<^verbatim>\<open>tf_device\<close> has the attribute \<^verbatim>\<open>device_id\<close>, set by
  the constructor, and the attribute \<^verbatim>\<open>prev_device\<close>, which exists only once
  \<^verbatim>\<open>__enter__\<close> has run.
\<close>

record device_obj =
  device_id :: int
  prev_device :: "pyval option"

definition device_init :: "string \<Rightarrow> device_obj py" where
  "device_init device_str st =
     (if startswith device_str ''rdna'' then
        (if contains device_str (CHR '':'') then
           (case py_index (py_split (CHR '':'') device_str) 1 of
              Inl e \<Rightarrow> py_raise e st
            | Inr field \<Rightarrow>
                (case py_int (int_max_str_digits st) field of
                   Inl e \<Rightarrow> py_raise e st
                 | Inr i \<Rightarrow> py_return \<lparr> device_id = i, prev_device = None \<rparr> st))
         else py_return \<lparr> device_id = 0, prev_device = None \<rparr> st)
      else py_raise ValueError st)"

definition device_enter :: "device_obj \<Rightarrow> device_obj py" where
  "device_enter self =
     py_bind current_device (\<lambda>p.
     py_bind (set_device (PyInt (device_id self))) (\<lambda>r.
     py_return (self\<lparr> prev_device := Some p \<rparr>)))"

definition device_exit :: "device_obj \<Rightarrow> pyval py" where
  "device_exit self =
     (case prev_device self of
        None \<Rightarrow> py_raise AttributeError
      | Some p \<Rightarrow> py_bind (set_device p) (\<lambda>r. py_return PyNone))"

definition tf_device_init :: "string \<Rightarrow> device_obj py" where
  "tf_device_init device_str st =
     (if startswith device_str ''/device:RDNA'' then
        (let parts = py_split (CHR '':'') device_str in
         if 2 < length parts then
           (case py_index parts 2 of
              Inl e \<Rightarrow> py_raise e st
            | Inr field \<Rightarrow>
                (case py_int (int_max_str_digits st) field of
                   Inl e \<Rightarrow> py_raise e st
                 | Inr i \<Rightarrow> py_return \<lparr> device_id = i, prev_device = None \<rparr> st))
         else py_return \<lparr> device_id = 0, prev_device = None \<rparr> st)
      else py_raise ValueError st)"

definition tf_device_enter :: "device_obj \<Rightarrow> device_obj py" where
  "tf_device_enter self =
     py_bind current_device (\<lambda>p.
     py_bind (set_device (PyInt (device_id self))) (\<lambda>r.
     py_return (self\<lparr> prev_device := Some p \<rparr>)))"

definition tf_device_exit :: "device_obj \<Rightarrow> pyval py" where
  "tf_device_exit self =
     (case prev_device self of
        None \<Rightarrow> py_raise AttributeError
      | Some p \<Rightarrow> py_bind (set_device p) (\<lambda>r. py_return PyNone))"

text \<open>
  The statement \<^verbatim>\<open>with obj: body\<close>. \<^verbatim>\<open>__enter__\<close> runs first; when it raises, neither the
  body nor \<^verbatim>\<open>__exit__\<close> runs. Otherwise the body runs and then \<^verbatim>\<open>__exit__\<close>, whether the body
  returned or raised. An exception of \<^verbatim>\<open>__exit__\<close> replaces the body's; an exception of
  the body is raised again after \<^verbatim>\<open>__exit__\<close> unless \<^verbatim>\<open>__exit__\<close> returned a true value.
\<close>

definition py_with ::
  "(device_obj \<Rightarrow> device_obj py) \<Rightarrow> (device_obj \<Rightarrow> pyval py) \<Rightarrow> device_obj \<Rightarrow> unit py \<Rightarrow> unit py"
where
  "py_with enter exit obj body st =
     (case enter obj st of
        (Inl e, st1) \<Rightarrow> (Inl e, st1)
      | (Inr self, st1) \<Rightarrow>
          (case body st1 of
             (Inr u, st2) \<Rightarrow>
               (case exit self st2 of
                  (Inl e2, st3) \<Rightarrow> (Inl e2, st3)
                | (Inr r, st3) \<Rightarrow> (Inr (), st3))
           | (Inl e, st2) \<Rightarrow>
               (case exit self st2 of
                  (Inl e2, st3) \<Rightarrow> (Inl e2, st3)
                | (Inr r, st3) \<Rightarrow> (if truthy r then (Inr (), st3) else (Inl e, st3)))))"

text \<open>\<^verbatim>\<open>with device(s): body\<close> and \<^verbatim>\<open>with tf_device(s): body\<close>: the constructor, then the statement.\<close>

definition with_device :: "string \<Rightarrow> unit py \<Rightarrow> unit py" where
  "with_device device_str body =
     py_bind (device_init device_str) (\<lambda>obj. py_with device_enter device_exit obj body)"

definition with_tf_device :: "string \<Rightarrow> unit py \<Rightarrow> unit py" where
  "with_tf_device device_str body =
     py_bind (tf_device_init device_str) (\<lambda>obj. py_with tf_device_enter tf_device_exit obj body)"

subsection \<open>Memory functions and device properties\<close>

definition empty_cache :: "pyval py" where
  "empty_cache = py_return PyNone"

definition memory_allocated :: "pyval \<Rightarrow> pyval py" where
  "memory_allocated dev_id = py_return (PyInt 0)"

definition max_memory_allocated :: "pyval \<Rightarrow> pyval py" where
  "max_memory_allocated dev_id = py_return (PyInt 0)"

definition get_device_properties :: "pyval \<Rightarrow> pyval py" where
  "get_device_properties dev_id = py_return (PyDict [])"

text \<open>
  Modelled from the spec: \<^verbatim>\<open>memory_cached\<close> is exported by the missing extension \<^verbatim>\<open>rdna_py\<close>
  only (the module does not define it; the tests call \<^verbatim>\<open>rdna.memory_cached()\<close>). It
  reports the \<^verbatim>\<open>cachedBytes\<close> statistic of a device.
\<close>

definition memory_cached :: "nat \<Rightarrow> pyval py" where
  "memory_cached d st = py_return (PyInt (int (cached_bytes (native st) d))) st"

subsection \<open>Client programs\<close>

text \<open>
  A client of the module runs a sequence of calls. \<open>Native_call f\<close> stands for a call
  into the missing extension (an allocation, a release of a block, ...): whatever it
  does, it acts on the extension's state only, and it may raise. The two \<^verbatim>\<open>with\<close>
  statements carry the block they guard, so contexts nest.
\<close>

datatype stmt =
    Set_device pyval
  | Empty_cache
  | Raise py_error
  | Native_call "rdna_py \<Rightarrow> (py_error + unit) \<times> rdna_py"
  | With_device string "stmt list"
  | With_tf_device string "stmt list"

fun exec :: "stmt \<Rightarrow> unit py" and exec_block :: "stmt list \<Rightarrow> unit py" where
  "exec (Set_device v) st = py_bind (set_device v) (\<lambda>r. py_return ()) st"
| "exec Empty_cache st = py_bind empty_cache (\<lambda>r. py_return ()) st"
| "exec (Raise e) st = py_raise e st"
| "exec (Native_call f) st = (case f (native st) of (r, n) \<Rightarrow> (r, st\<lparr> native := n \<rparr>))"
| "exec (With_device s body) st = with_device s (exec_block body) st"
| "exec (With_tf_device s body) st = with_tf_device s (exec_block body) st"
| "exec_block [] st = py_return () st"
| "exec_block (c # cs) st = py_bind (exec c) (\<lambda>u. exec_block cs) st"

subsection \<open>States used in the examples\<close>

text \<open>Two devices discovered, nothing cached, initialisation succeeded.\<close>

definition two_devices :: rdna where
  "two_devices = import_rdna \<lparr> discovered = 2, cached_bytes = (\<lambda>d. 0) \<rparr> (Inr ()) 4300"

text \<open>No device discovered.\<close>

definition no_devices :: rdna where
  "no_devices = import_rdna \<lparr> discovered = 0, cached_bytes = (\<lambda>d. 0) \<rparr> (Inr ()) 4300"

text \<open>One device discovered, but the extension's \<^verbatim>\<open>initialize()\<close> raised.\<close>

definition init_failed :: rdna where
  "init_failed = import_rdna \<lparr> discovered = 1, cached_bytes = (\<lambda>d. 0) \<rparr> (Inl RuntimeError) 4300"

text \<open>Two devices, and one mebibyte of freed blocks retained for device 1.\<close>

definition one_mib_cached :: rdna where
  "one_mib_cached =
     import_rdna \<lparr> discovered = 2, cached_bytes = (\<lambda>d. if d = 1 then 1048576 else 0) \<rparr>
       (Inr ()) 4300"

section \<open>Properties\<close>

subsection \<open>Splitting and parsing\<close>

lemma py_split_not_Nil: "py_split sep s \<noteq> []"
  by (induction s) (auto split: list.splits)

lemma py_split_length: "length (py_split sep s) = Suc (count_list s sep)"
proof (induction s)
  case Nil
  show ?case by simp
next
  case (Cons c cs)
  then show ?case
    by (cases "py_split sep cs") (auto simp: py_split_not_Nil)
qed

lemma py_split_no_sep: "sep \<notin> set s \<Longrightarrow> py_split sep s = [s]"
  by (induction s) auto

lemma py_split_has_sep: "sep \<in> set s \<Longrightarrow> 2 \<le> length (py_split sep s)"
proof -
  assume "sep \<in> set s"
  then have "0 < count_list s sep"
    by (induction s) auto
  then show ?thesis
    by (simp add: py_split_length)
qed

text \<open>
  The parts of \<^verbatim>\<open>s.split(c)\<close> in terms of the text: the first part is the text before the
  first \<open>c\<close>, the second the text between the first \<open>c\<close> and the next one (or the end), the
  third the text between the second \<open>c\<close> and the next one (or the end).
\<close>

lemma py_split_unfold:
  "py_split sep s
     = takeWhile (\<lambda>c. c \<noteq> sep) s
       # (if sep \<in> set s then py_split sep (tl (dropWhile (\<lambda>c. c \<noteq> sep) s)) else [])"
  by (induction s) (auto split: list.splits)

lemma py_split_second:
  assumes "sep \<in> set s"
  shows "py_index (py_split sep s) 1
     = Inr (takeWhile (\<lambda>c. c \<noteq> sep) (tl (dropWhile (\<lambda>c. c \<noteq> sep) s)))"
proof -
  let ?r = "tl (dropWhile (\<lambda>c. c \<noteq> sep) s)"
  have "py_split sep s = takeWhile (\<lambda>c. c \<noteq> sep) s # py_split sep ?r"
    using assms py_split_unfold [of sep s] by simp
  moreover obtain ys where "py_split sep ?r = takeWhile (\<lambda>c. c \<noteq> sep) ?r # ys"
    using py_split_unfold [of sep ?r] by blast
  ultimately show ?thesis
    by (simp add: py_index_def)
qed

lemma set_tl_dropWhile: "c \<in> set (tl (dropWhile P s)) \<Longrightarrow> c \<in> set s"
proof -
  assume "c \<in> set (tl (dropWhile P s))"
  then have "c \<in> set (dropWhile P s)"
    by (cases "dropWhile P s") auto
  then show ?thesis
    by (rule set_dropWhileD)
qed

lemma py_split_third:
  assumes "sep \<in> set (tl (dropWhile (\<lambda>c. c \<noteq> sep) s))"
  shows "2 < length (py_split sep s)
     \<and> py_index (py_split sep s) 2
       = Inr (takeWhile (\<lambda>c. c \<noteq> sep)
               (tl (dropWhile (\<lambda>c. c \<noteq> sep) (tl (dropWhile (\<lambda>c. c \<noteq> sep) s)))))"
proof -
  let ?r = "tl (dropWhile (\<lambda>c. c \<noteq> sep) s)"
  from assms have "sep \<in> set s"
    by (rule set_tl_dropWhile)
  then have a: "py_split sep s = takeWhile (\<lambda>c. c \<noteq> sep) s # py_split sep ?r"
    using py_split_unfold [of sep s] by simp
  have b: "py_index (py_split sep ?r) 1
      = Inr (takeWhile (\<lambda>c. c \<noteq> sep) (tl (dropWhile (\<lambda>c. c \<noteq> sep) ?r)))"
    using assms by (rule py_split_second)
  from a b show ?thesis
    by (simp add: py_index_def split: if_splits)
qed

text \<open>
  The subscripts of the constructors never raise \<^verbatim>\<open>IndexError\<close>: \<^verbatim>\<open>split(':')[1]\<close> is
  evaluated only when the string contains a colon, \<^verbatim>\<open>parts[2]\<close> only when there are more
  than two parts.
\<close>

lemma device_init_no_IndexError: "fst (device_init s st) \<noteq> Inl IndexError"
proof (cases "contains s (CHR '':'')")
  case True
  then have "1 < length (py_split (CHR '':'') s)"
    using py_split_has_sep [of "CHR '':''" s] by (simp add: contains_def)
  then show ?thesis
    by (simp add: device_init_def py_index_def py_raise_def py_return_def py_int_def
        split: sum.splits list.splits option.splits)
next
  case False
  then show ?thesis
    by (simp add: device_init_def py_raise_def py_return_def)
qed

lemma tf_device_init_no_IndexError: "fst (tf_device_init s st) \<noteq> Inl IndexError"
  by (simp add: tf_device_init_def py_index_def py_raise_def py_return_def py_int_def Let_def
      split: sum.splits list.splits option.splits)

text \<open>
  What \<open>py_int\<close> accepts is made of whitespace, signs, underscores and decimal digits
  only; a string with any other character is rejected with \<^verbatim>\<open>ValueError\<close>.
\<close>

lemma scan_digits_chars:
  "scan_digits prev acc cs = Some n \<Longrightarrow> c \<in> set cs \<Longrightarrow> c = CHR ''_'' \<or> digit_val c \<noteq> None"
  by (induction cs arbitrary: prev acc) (auto split: if_splits option.splits)

lemma parse_magnitude_chars:
  "parse_magnitude lim body = Some n \<Longrightarrow> c \<in> set body \<Longrightarrow> c = CHR ''_'' \<or> digit_val c \<noteq> None"
  unfolding parse_magnitude_def
  by (auto split: list.splits if_splits option.splits dest: scan_digits_chars)

lemma dropWhile_keeps: "c \<in> set xs \<Longrightarrow> \<not> P c \<Longrightarrow> c \<in> set (dropWhile P xs)"
  by (induction xs) auto

lemma py_strip_keeps: "c \<in> set s \<Longrightarrow> \<not> py_isspace c \<Longrightarrow> c \<in> set (py_strip s)"
  by (simp add: py_strip_def dropWhile_keeps)

lemma py_int_chars:
  assumes "py_int lim s = Inr n" and "c \<in> set s"
  shows "py_isspace c \<or> c = CHR ''+'' \<or> c = CHR ''-'' \<or> c = CHR ''_'' \<or> digit_val c \<noteq> None"
proof (cases "py_isspace c")
  case True
  then show ?thesis by simp
next
  case False
  with assms(2) have m: "c \<in> set (py_strip s)"
    by (rule py_strip_keeps)
  from assms(1) m show ?thesis
    unfolding py_int_def
    by (auto split: list.splits if_splits option.splits dest: parse_magnitude_chars)
qed

lemma py_int_error_is_ValueError: "py_int lim s = Inl e \<Longrightarrow> e = ValueError"
  by (auto simp: py_int_def split: list.splits if_splits option.splits)

lemma py_int_rejects:
  assumes "c \<in> set s" and "\<not> py_isspace c" and "c \<noteq> CHR ''+''" and "c \<noteq> CHR ''-''"
    and "c \<noteq> CHR ''_''" and "digit_val c = None"
  shows "py_int lim s = Inl ValueError"
proof (cases "py_int lim s")
  case (Inl e)
  then show ?thesis
    using py_int_error_is_ValueError [of lim s e] by simp
next
  case (Inr n)
  with assms show ?thesis
    using py_int_chars [of lim s n c] by simp
qed

subsection \<open>Scoped device contexts\<close>

text \<open>\<^verbatim>\<open>set_device\<close> changes nothing but the trace.\<close>

lemma set_device_program_state:
  "native (snd (set_device i st)) = native st
   \<and> available (snd (set_device i st)) = available st
   \<and> int_max_str_digits (snd (set_device i st)) = int_max_str_digits st"
  by (simp add: set_device_def py_return_def)

text \<open>
  Claim C1. A device context (\<^verbatim>\<open>device\<close> or \<^verbatim>\<open>tf_device\<close>, object \<open>obj\<close>) is entered while the
  current device is \<open>p\<close>; \<open>body\<close> is any block, returning or raising. Then
  \<^item> \<^verbatim>\<open>__enter__\<close> calls \<^verbatim>\<open>set_device\<close> with the object's device, and the block starts after
    that call;
  \<^item> the last event of the statement is the call \<^verbatim>\<open>set_device(p)\<close> with the captured \<open>p\<close>,
    made by \<^verbatim>\<open>__exit__\<close> after all events of the block, whatever the outcome of the block;
  \<^item> the outcome of the statement is the outcome of the block: an exception of the block
    leaves the statement, after \<^verbatim>\<open>__exit__\<close> has run;
  \<^item> \<^verbatim>\<open>current_device()\<close> returns \<open>p\<close> after the statement.
\<close>

theorem device_context_restores_current_device:
  assumes "fst (current_device st) = Inr p"
  shows "trace (snd (device_enter obj st)) = trace st @ [Set_device_call (PyInt (device_id obj))]
       \<and> trace (snd (py_with device_enter device_exit obj body st))
           = trace (snd (body (snd (device_enter obj st)))) @ [Set_device_call p]
       \<and> fst (py_with device_enter device_exit obj body st)
           = fst (body (snd (device_enter obj st)))
       \<and> fst (current_device (snd (py_with device_enter device_exit obj body st))) = Inr p
       \<and> trace (snd (tf_device_enter obj st))
           = trace st @ [Set_device_call (PyInt (device_id obj))]
       \<and> trace (snd (py_with tf_device_enter tf_device_exit obj body st))
           = trace (snd (body (snd (tf_device_enter obj st)))) @ [Set_device_call p]
       \<and> fst (py_with tf_device_enter tf_device_exit obj body st)
           = fst (body (snd (tf_device_enter obj st)))
       \<and> fst (current_device (snd (py_with tf_device_enter tf_device_exit obj body st))) = Inr p"
proof -
  from assms have p: "p = PyInt 0"
    by (simp add: current_device_def py_return_def)
  have enter: "device_enter obj st
      = (Inr (obj\<lparr> prev_device := Some p \<rparr>),
         st\<lparr> trace := trace st @ [Set_device_call (PyInt (device_id obj))] \<rparr>)"
    by (simp add: p device_enter_def current_device_def set_device_def py_return_def py_bind_def)
  have tf_enter: "tf_device_enter obj st
      = (Inr (obj\<lparr> prev_device := Some p \<rparr>),
         st\<lparr> trace := trace st @ [Set_device_call (PyInt (device_id obj))] \<rparr>)"
    by (simp add: p tf_device_enter_def current_device_def set_device_def py_return_def
        py_bind_def)
  have exit: "device_exit (obj\<lparr> prev_device := Some p \<rparr>) s
      = (Inr PyNone, s\<lparr> trace := trace s @ [Set_device_call p] \<rparr>)" for s
    by (simp add: device_exit_def set_device_def py_return_def py_bind_def)
  have tf_exit: "tf_device_exit (obj\<lparr> prev_device := Some p \<rparr>) s
      = (Inr PyNone, s\<lparr> trace := trace s @ [Set_device_call p] \<rparr>)" for s
    by (simp add: tf_device_exit_def set_device_def py_return_def py_bind_def)
  have cur: "fst (current_device s) = Inr p" for s
    by (simp add: p current_device_def py_return_def)
  have a: "trace (snd (py_with device_enter device_exit obj body st))
           = trace (snd (body (snd (device_enter obj st)))) @ [Set_device_call p]
       \<and> fst (py_with device_enter device_exit obj body st)
           = fst (body (snd (device_enter obj st)))"
    by (simp add: py_with_def enter exit split: prod.splits sum.splits)
  have b: "trace (snd (py_with tf_device_enter tf_device_exit obj body st))
           = trace (snd (body (snd (tf_device_enter obj st)))) @ [Set_device_call p]
       \<and> fst (py_with tf_device_enter tf_device_exit obj body st)
           = fst (body (snd (tf_device_enter obj st)))"
    by (simp add: py_with_def tf_enter tf_exit split: prod.splits sum.splits)
  show ?thesis
    using a b cur by (simp add: enter tf_enter)
qed

text \<open>
  The scenario of the specification for C1: the current device is 0, a context for
  device 1 is entered, the block raises. The exception leaves the statement, the calls
  made are \<^verbatim>\<open>set_device(1)\<close> and then \<^verbatim>\<open>set_device(0)\<close>, and the current device is 0.
\<close>

theorem device_context_restores_current_device_witness:
  "fst (current_device two_devices) = Inr (PyInt 0)
   \<and> fst (py_with device_enter device_exit \<lparr> device_id = 1, prev_device = None \<rparr>
            (py_raise RuntimeError) two_devices) = Inl RuntimeError
   \<and> trace (snd (py_with device_enter device_exit \<lparr> device_id = 1, prev_device = None \<rparr>
            (py_raise RuntimeError) two_devices))
       = [Set_device_call (PyInt 1), Set_device_call (PyInt 0)]
   \<and> fst (current_device (snd (py_with device_enter device_exit
            \<lparr> device_id = 1, prev_device = None \<rparr> (py_raise RuntimeError) two_devices)))
       = Inr (PyInt 0)"
proof -
  have h: "fst (current_device two_devices) = Inr (PyInt 0)"
    by (simp add: current_device_def py_return_def)
  note t = device_context_restores_current_device [OF h,
      of "\<lparr> device_id = 1, prev_device = None \<rparr>" "py_raise RuntimeError"]
  have e: "trace (snd (device_enter \<lparr> device_id = 1, prev_device = None \<rparr> two_devices))
      = [Set_device_call (PyInt 1)]"
    using t by (simp add: two_devices_def import_rdna_def)
  have r: "fst (py_with device_enter device_exit \<lparr> device_id = 1, prev_device = None \<rparr>
            (py_raise RuntimeError) two_devices) = Inl RuntimeError"
    using t by (simp add: py_raise_def)
  have c: "trace (snd (py_with device_enter device_exit \<lparr> device_id = 1, prev_device = None \<rparr>
            (py_raise RuntimeError) two_devices))
       = [Set_device_call (PyInt 1), Set_device_call (PyInt 0)]"
    using t e by (simp add: py_raise_def)
  show ?thesis
    using h r c t by blast
qed

subsection \<open>Setting the current device\<close>

text \<open>
  Claim C2, as stated, fails. With two devices, \<^verbatim>\<open>set_device(5)\<close> does not fail but
  returns \<^verbatim>\<open>None\<close>; \<^verbatim>\<open>set_device(1)\<close> returns \<^verbatim>\<open>None\<close>, not the previous index 0, and
  \<^verbatim>\<open>current_device()\<close> is 0 afterwards, not 1.
\<close>

theorem set_device_counterexample:
  "fst (device_count two_devices) = Inr (PyInt 2)
   \<and> fst (set_device (PyInt 5) two_devices) = Inr PyNone
   \<and> fst (current_device two_devices) = Inr (PyInt 0)
   \<and> fst (set_device (PyInt 1) two_devices) = Inr PyNone
   \<and> fst (current_device (snd (set_device (PyInt 1) two_devices))) = Inr (PyInt 0)"
  by (simp add: device_count_def rdna_py_device_count_def two_devices_def import_rdna_def
      set_device_def current_device_def py_return_def)

text \<open>
  Claim C2, amended. \<^verbatim>\<open>set_device(index)\<close> never fails, whatever the index and the number
  of devices, and it returns \<^verbatim>\<open>None\<close>.
\<close>

theorem set_device_returns_None: "fst (set_device i st) = Inr PyNone"
  by (simp add: set_device_def py_return_def)

subsection \<open>Device properties\<close>

text \<open>
  Claim C3, as stated, fails. With no device, \<^verbatim>\<open>get_device_properties(0)\<close> returns a value;
  with two devices, \<^verbatim>\<open>get_device_properties(2)\<close> returns a value.
\<close>

theorem get_device_properties_counterexample:
  "fst (device_count no_devices) = Inr (PyInt 0)
   \<and> fst (get_device_properties (PyInt 0) no_devices) = Inr (PyDict [])
   \<and> fst (device_count two_devices) = Inr (PyInt 2)
   \<and> fst (get_device_properties (PyInt 2) two_devices) = Inr (PyDict [])"
  by (simp add: device_count_def rdna_py_device_count_def two_devices_def no_devices_def
      import_rdna_def get_device_properties_def py_return_def)

text \<open>
  Claim C3, amended. \<^verbatim>\<open>get_device_properties(index)\<close> never fails: for every index, inside
  \<open>[0, device_count())\<close> or not, it returns a value and leaves the state as it was.
\<close>

theorem get_device_properties_never_fails:
  "\<exists>d. get_device_properties i st = (Inr d, st)"
  by (simp add: get_device_properties_def py_return_def)

text \<open>
  Claim C4 says that for an index inside \<open>[0, device_count())\<close> the returned descriptor
  carries that index. The code, at index 1 of two devices: the call succeeds, and what it
  returns is the empty dict, which has no entry \<^verbatim>\<open>index\<close>.
\<close>

theorem get_device_properties_no_index:
  "fst (device_count two_devices) = Inr (PyInt 2)
   \<and> fst (get_device_properties (PyInt 1) two_devices) = Inr (PyDict [])
   \<and> dict_get (PyDict []) ''index'' = None"
  by (simp add: device_count_def rdna_py_device_count_def two_devices_def
      import_rdna_def get_device_properties_def py_return_def)

subsection \<open>Device identifiers\<close>

text \<open>
  Claim C5, as stated, fails. \<^verbatim>\<open>rdna:1:x\<close> has the prefix, and neither what follows the
  prefix's colon, \<^verbatim>\<open>1:x\<close>, nor its last part, \<^verbatim>\<open>x\<close>, is an integer; yet \<^verbatim>\<open>device('rdna:1:x')\<close>
  succeeds, with device 1. \<^verbatim>\<open>tf_device('/device:RDNA:1:x')\<close> succeeds in the same way.
\<close>

theorem malformed_identifier_counterexample:
  "startswith ''rdna:1:x'' ''rdna''
   \<and> py_int (int_max_str_digits two_devices) ''1:x'' = Inl ValueError
   \<and> py_int (int_max_str_digits two_devices) ''x'' = Inl ValueError
   \<and> device_init ''rdna:1:x'' two_devices
       = (Inr \<lparr> device_id = 1, prev_device = None \<rparr>, two_devices)
   \<and> startswith ''/device:RDNA:1:x'' ''/device:RDNA''
   \<and> tf_device_init ''/device:RDNA:1:x'' two_devices
       = (Inr \<lparr> device_id = 1, prev_device = None \<rparr>, two_devices)"
  by (simp add: startswith_def contains_def device_init_def tf_device_init_def py_index_def
      py_int_def py_strip_def py_isspace_def parse_magnitude_def digit_val_def
      py_return_def py_raise_def two_devices_def import_rdna_def)

text \<open>
  Claim C5, amended. Constructing a \<^verbatim>\<open>device\<close> fails with \<^verbatim>\<open>ValueError\<close> (Python's
  invalid-argument error), the state after the failure being the state before, when the
  string does not start with \<^verbatim>\<open>rdna\<close>, and when it does, has a colon, and the text between
  its first colon and the next colon (or the end) is not an integer for \<^verbatim>\<open>int\<close>. A
  \<^verbatim>\<open>tf_device\<close> fails in the same way when the string does not start with \<^verbatim>\<open>/device:RDNA\<close>,
  and when it does, has a second colon, and the text between its second colon and the
  next colon (or the end) is not an integer. What follows a further colon is not looked
  at.
\<close>

theorem malformed_identifier_rejected:
  "(\<not> startswith s ''rdna'' \<longrightarrow> device_init s st = (Inl ValueError, st))
   \<and> (startswith s ''rdna'' \<longrightarrow> contains s (CHR '':'')
        \<longrightarrow> py_int (int_max_str_digits st)
              (takeWhile (\<lambda>c. c \<noteq> CHR '':'') (tl (dropWhile (\<lambda>c. c \<noteq> CHR '':'') s)))
            = Inl ValueError
        \<longrightarrow> device_init s st = (Inl ValueError, st))
   \<and> (\<not> startswith s ''/device:RDNA'' \<longrightarrow> tf_device_init s st = (Inl ValueError, st))
   \<and> (startswith s ''/device:RDNA''
        \<longrightarrow> contains (tl (dropWhile (\<lambda>c. c \<noteq> CHR '':'') s)) (CHR '':'')
        \<longrightarrow> py_int (int_max_str_digits st)
              (takeWhile (\<lambda>c. c \<noteq> CHR '':'')
                (tl (dropWhile (\<lambda>c. c \<noteq> CHR '':'')
                  (tl (dropWhile (\<lambda>c. c \<noteq> CHR '':'') s)))))
            = Inl ValueError
        \<longrightarrow> tf_device_init s st = (Inl ValueError, st))"
proof (intro conjI impI)
  assume "\<not> startswith s ''rdna''"
  then show "device_init s st = (Inl ValueError, st)"
    by (simp add: device_init_def py_raise_def)
next
  assume p: "startswith s ''rdna''"
    and c: "contains s (CHR '':'')"
    and i: "py_int (int_max_str_digits st)
              (takeWhile (\<lambda>c. c \<noteq> CHR '':'') (tl (dropWhile (\<lambda>c. c \<noteq> CHR '':'') s)))
            = Inl ValueError"
  from c have "py_index (py_split (CHR '':'') s) 1
      = Inr (takeWhile (\<lambda>c. c \<noteq> CHR '':'') (tl (dropWhile (\<lambda>c. c \<noteq> CHR '':'') s)))"
    using py_split_second [of "CHR '':''" s] by (simp add: contains_def)
  with p c i show "device_init s st = (Inl ValueError, st)"
    by (simp add: device_init_def py_raise_def)
next
  assume "\<not> startswith s ''/device:RDNA''"
  then show "tf_device_init s st = (Inl ValueError, st)"
    by (simp add: tf_device_init_def py_raise_def)
next
  assume p: "startswith s ''/device:RDNA''"
    and c: "contains (tl (dropWhile (\<lambda>c. c \<noteq> CHR '':'') s)) (CHR '':'')"
    and i: "py_int (int_max_str_digits st)
              (takeWhile (\<lambda>c. c \<noteq> CHR '':'')
                (tl (dropWhile (\<lambda>c. c \<noteq> CHR '':'')
                  (tl (dropWhile (\<lambda>c. c \<noteq> CHR '':'') s)))))
            = Inl ValueError"
  from c have "2 < length (py_split (CHR '':'') s)
     \<and> py_index (py_split (CHR '':'') s) 2
       = Inr (takeWhile (\<lambda>c. c \<noteq> CHR '':'')
               (tl (dropWhile (\<lambda>c. c \<noteq> CHR '':'') (tl (dropWhile (\<lambda>c. c \<noteq> CHR '':'') s)))))"
    using py_split_third [of "CHR '':''" s] by (simp add: contains_def)
  with p i show "tf_device_init s st = (Inl ValueError, st)"
    by (simp add: tf_device_init_def py_raise_def Let_def)
qed

text \<open>
  The amended C5 at four identifiers: \<^verbatim>\<open>cuda:0\<close> and \<^verbatim>\<open>/device:GPU:0\<close> have the wrong prefix,
  \<^verbatim>\<open>rdna:abc\<close> and \<^verbatim>\<open>/device:RDNA:1.5\<close> an index that is no integer.
\<close>

theorem malformed_identifier_rejected_witness:
  "\<not> startswith ''cuda:0'' ''rdna''
   \<and> device_init ''cuda:0'' two_devices = (Inl ValueError, two_devices)
   \<and> startswith ''rdna:abc'' ''rdna''
   \<and> contains ''rdna:abc'' (CHR '':'')
   \<and> takeWhile (\<lambda>c. c \<noteq> CHR '':'') (tl (dropWhile (\<lambda>c. c \<noteq> CHR '':'') ''rdna:abc'')) = ''abc''
   \<and> py_int (int_max_str_digits two_devices) ''abc'' = Inl ValueError
   \<and> device_init ''rdna:abc'' two_devices = (Inl ValueError, two_devices)
   \<and> \<not> startswith ''/device:GPU:0'' ''/device:RDNA''
   \<and> tf_device_init ''/device:GPU:0'' two_devices = (Inl ValueError, two_devices)
   \<and> startswith ''/device:RDNA:1.5'' ''/device:RDNA''
   \<and> contains (tl (dropWhile (\<lambda>c. c \<noteq> CHR '':'') ''/device:RDNA:1.5'')) (CHR '':'')
   \<and> takeWhile (\<lambda>c. c \<noteq> CHR '':'')
        (tl (dropWhile (\<lambda>c. c \<noteq> CHR '':'')
          (tl (dropWhile (\<lambda>c. c \<noteq> CHR '':'') ''/device:RDNA:1.5'')))) = ''1.5''
   \<and> py_int (int_max_str_digits two_devices) ''1.5'' = Inl ValueError
   \<and> tf_device_init ''/device:RDNA:1.5'' two_devices = (Inl ValueError, two_devices)"
proof -
  have a: "\<not> startswith ''cuda:0'' ''rdna''"
    by (simp add: startswith_def)
  have b: "startswith ''rdna:abc'' ''rdna''" "contains ''rdna:abc'' (CHR '':'')"
    by (simp_all add: startswith_def contains_def)
  have c: "takeWhile (\<lambda>c. c \<noteq> CHR '':'') (tl (dropWhile (\<lambda>c. c \<noteq> CHR '':'') ''rdna:abc''))
      = ''abc''"
    by simp
  have d: "py_int (int_max_str_digits two_devices) ''abc'' = Inl ValueError"
    by (simp add: py_int_def py_strip_def py_isspace_def parse_magnitude_def digit_val_def)
  have e: "\<not> startswith ''/device:GPU:0'' ''/device:RDNA''"
    by (simp add: startswith_def)
  have f: "startswith ''/device:RDNA:1.5'' ''/device:RDNA''"
    "contains (tl (dropWhile (\<lambda>c. c \<noteq> CHR '':'') ''/device:RDNA:1.5'')) (CHR '':'')"
    by (simp_all add: startswith_def contains_def)
  have g: "takeWhile (\<lambda>c. c \<noteq> CHR '':'')
        (tl (dropWhile (\<lambda>c. c \<noteq> CHR '':'')
          (tl (dropWhile (\<lambda>c. c \<noteq> CHR '':'') ''/device:RDNA:1.5'')))) = ''1.5''"
    by simp
  have h: "py_int (int_max_str_digits two_devices) ''1.5'' = Inl ValueError"
    by (simp add: py_int_def py_strip_def py_isspace_def parse_magnitude_def digit_val_def)
  show ?thesis
    using a b c d e f g h
      malformed_identifier_rejected [of "''cuda:0''" two_devices]
      malformed_identifier_rejected [of "''rdna:abc''" two_devices]
      malformed_identifier_rejected [of "''/device:GPU:0''" two_devices]
      malformed_identifier_rejected [of "''/device:RDNA:1.5''" two_devices]
    by simp
qed


text \<open>
  Claim C9. An identifier without an index gives device 0: \<^verbatim>\<open>device(s)\<close> succeeds with
  \<^verbatim>\<open>device_id\<close> 0 for every \<open>s\<close> that starts with \<^verbatim>\<open>rdna\<close> and has no colon, and \<^verbatim>\<open>tf_device(s)\<close>
  succeeds with \<^verbatim>\<open>device_id\<close> 0 for every \<open>s\<close> that starts with \<^verbatim>\<open>/device:RDNA\<close> and has fewer
  than three colon-separated parts. Neither changes the state.
\<close>

theorem constructors_default_to_device_0:
  "(startswith s ''rdna'' \<longrightarrow> \<not> contains s (CHR '':'')
      \<longrightarrow> device_init s st = (Inr \<lparr> device_id = 0, prev_device = None \<rparr>, st))
   \<and> (startswith s ''/device:RDNA'' \<longrightarrow> length (py_split (CHR '':'') s) < 3
      \<longrightarrow> tf_device_init s st = (Inr \<lparr> device_id = 0, prev_device = None \<rparr>, st))"
  by (simp add: device_init_def tf_device_init_def py_return_def Let_def)

text \<open>C9 at \<^verbatim>\<open>rdnafoo\<close> and at \<^verbatim>\<open>/device:RDNAfoo\<close>.\<close>

theorem constructors_default_to_device_0_witness:
  "startswith ''rdnafoo'' ''rdna'' \<and> \<not> contains ''rdnafoo'' (CHR '':'')
   \<and> device_init ''rdnafoo'' two_devices = (Inr \<lparr> device_id = 0, prev_device = None \<rparr>, two_devices)
   \<and> startswith ''/device:RDNAfoo'' ''/device:RDNA''
   \<and> length (py_split (CHR '':'') ''/device:RDNAfoo'') < 3
   \<and> tf_device_init ''/device:RDNAfoo'' two_devices
       = (Inr \<lparr> device_id = 0, prev_device = None \<rparr>, two_devices)"
proof -
  have a: "startswith ''rdnafoo'' ''rdna''" "\<not> contains ''rdnafoo'' (CHR '':'')"
    by (simp_all add: startswith_def contains_def)
  have b: "startswith ''/device:RDNAfoo'' ''/device:RDNA''"
    "length (py_split (CHR '':'') ''/device:RDNAfoo'') < 3"
    by (simp_all add: startswith_def)
  show ?thesis
    using a b constructors_default_to_device_0 [of "''rdnafoo''" two_devices]
      constructors_default_to_device_0 [of "''/device:RDNAfoo''" two_devices]
    by simp
qed

subsection \<open>Memory statistics\<close>

text \<open>
  Claim C6 says that \<^verbatim>\<open>empty_cache\<close> drives the cached bytes to 0. The code, in a state
  where one mebibyte is cached for device 1: \<^verbatim>\<open>empty_cache()\<close> returns \<^verbatim>\<open>None\<close>, and the cached
  bytes of device 1 are what they were.
\<close>

theorem empty_cache_keeps_cached_bytes:
  "fst (memory_cached 1 one_mib_cached) = Inr (PyInt 1048576)
   \<and> fst (empty_cache one_mib_cached) = Inr PyNone
   \<and> fst (memory_cached 1 (snd (empty_cache one_mib_cached))) = Inr (PyInt 1048576)"
  by (simp add: memory_cached_def empty_cache_def one_mib_cached_def import_rdna_def
      py_return_def)

text \<open>
  Claim C7. \<^verbatim>\<open>max_memory_allocated(d)\<close> never decreases: its value after any client program
  (any sequence of calls, among them any calls into the allocator of the extension,
  \<open>Native_call\<close>) is at least its value before; and \<^verbatim>\<open>empty_cache\<close> does not change it.
\<close>

theorem max_memory_allocated_monotone:
  "(\<exists>m n. fst (max_memory_allocated d st) = Inr (PyInt m)
        \<and> fst (max_memory_allocated d (snd (exec_block prog st))) = Inr (PyInt n)
        \<and> m \<le> n)
   \<and> fst (max_memory_allocated d (snd (empty_cache st))) = fst (max_memory_allocated d st)"
  by (simp add: max_memory_allocated_def py_return_def)

subsection \<open>Availability\<close>

text \<open>
  Claim C8, as stated, fails. One accelerator was discovered (the extension's
  \<^verbatim>\<open>is_available()\<close> is true) but \<^verbatim>\<open>initialize()\<close> raised: \<^verbatim>\<open>is_available()\<close> returns \<^verbatim>\<open>False\<close>.
\<close>

theorem is_available_counterexample:
  "rdna_py_is_available (native init_failed) = Inr True
   \<and> 0 < discovered (native init_failed)
   \<and> fst (is_available init_failed) = Inr (PyBool False)"
  by (simp add: init_failed_def import_rdna_def is_available_def py_return_def
      check_availability_def rdna_py_is_available_def)

text \<open>
  Claim C8, amended. \<^verbatim>\<open>is_available()\<close> never throws and changes nothing; after the import
  it returns true iff at least one accelerator was discovered and the extension's
  \<^verbatim>\<open>initialize()\<close> returned without an exception.
\<close>

theorem is_available_iff_initialized:
  "(\<exists>b. is_available st = (Inr (PyBool b), st))
   \<and> fst (is_available (import_rdna n init lim))
       = Inr (PyBool (0 < discovered n \<and> init = Inr ()))"
  by (auto simp: import_rdna_def is_available_def py_return_def
      check_availability_def rdna_py_is_available_def split: sum.splits)

subsection \<open>The current device is constant\<close>

text \<open>
  Claim C10. \<^verbatim>\<open>current_device()\<close> returns 0 in every state, so also after any client
  program: any sequence of \<^verbatim>\<open>set_device\<close> calls and of \<^verbatim>\<open>device\<close> and \<^verbatim>\<open>tf_device\<close> contexts,
  nested or not, completed or left by an exception. \<^verbatim>\<open>set_device(i)\<close> returns \<^verbatim>\<open>None\<close> for
  every \<open>i\<close>.
\<close>

theorem current_device_always_0:
  "fst (current_device st) = Inr (PyInt 0)
   \<and> fst (current_device (snd (exec_block prog st))) = Inr (PyInt 0)
   \<and> fst (set_device i st) = Inr PyNone"
  by (simp add: current_device_def set_device_def py_return_def)

end
